theory Spec2Isabelle
  imports Main
begin

unbundle bit_operations_syntax

section \<open>View layers of blenkernel/intern/layer.c\<close>

text \<open>
  The development embeds the functions of \<^verbatim>\<open>source/blender/blenkernel/intern/layer.c\<close>
  that maintain a view layer: the tree of layer collections that mirrors the scene's
  collections, the list of object bases, the override sets and the iterator over the
  renderable objects.

  Pointers are addresses (natural numbers). A \<^verbatim>\<open>ListBase\<close> is the list of its
  links in order: \<^verbatim>\<open>BLI_addtail\<close> appends, \<^verbatim>\<open>BLI_remlink\<close> takes the link out,
  \<^verbatim>\<open>BLI_findptr\<close> returns the first link whose field holds the pointer,
  \<^verbatim>\<open>BLI_findindex\<close> the position of a link (or -1) and \<^verbatim>\<open>BLI_listbase_count\<close>
  the length. \<^verbatim>\<open>BLI_assert\<close> is compiled out, as in a release build; the condition
  of the assertion that closes \<^verbatim>\<open>layer_collection_sync\<close> is a predicate of its own.
\<close>

subsection \<open>Flags\<close>

text \<open>
  Modelled from the spec: the flag constants are declared in \<^verbatim>\<open>DNA_layer_types.h\<close>,
  \<^verbatim>\<open>DNA_group_types.h\<close> and \<^verbatim>\<open>DNA_ID.h\<close>, which are not among the sources. The spec
  names them as separate flag bits of one bitset each; every one is a single bit here,
  different from the others of its bitset.
\<close>

definition BASE_SELECTED :: int where "BASE_SELECTED = 1"
definition BASE_VISIBLED :: int where "BASE_VISIBLED = 2"
definition BASE_SELECTABLED :: int where "BASE_SELECTABLED = 4"
definition BASE_VISIBLE_VIEWPORT :: int where "BASE_VISIBLE_VIEWPORT = 64"
definition BASE_VISIBLE_RENDER :: int where "BASE_VISIBLE_RENDER = 128"

definition COLLECTION_RESTRICT_VIEW :: int where "COLLECTION_RESTRICT_VIEW = 1"
definition COLLECTION_RESTRICT_SELECT :: int where "COLLECTION_RESTRICT_SELECT = 2"
definition COLLECTION_RESTRICT_RENDER :: int where "COLLECTION_RESTRICT_RENDER = 8"
definition COLLECTION_IS_MASTER :: int where "COLLECTION_IS_MASTER = 32"

definition LAYER_COLLECTION_EXCLUDE :: int where "LAYER_COLLECTION_EXCLUDE = 16"

definition VIEW_LAYER_RENDER :: int where "VIEW_LAYER_RENDER = 1"

definition LIB_TAG_DOIT :: int where "LIB_TAG_DOIT = 1024"

definition DYN_OVERRIDE_PROP_USE :: int where "DYN_OVERRIDE_PROP_USE = 1"

subsection \<open>Data\<close>

text \<open>\<^verbatim>\<open>Base\<close>: the object it stands for and its flags. Bases live in memory and are
  named by their address, so that a write through one pointer is seen through all.\<close>

record base =
  object :: nat
  flag :: int

text \<open>\<^verbatim>\<open>Collection\<close>, read only. The collections form a graph without cycles; a
  collection is written with its children unfolded, and a collection linked under two
  parents occurs twice, with the same address.\<close>

datatype collection =
  Collection (collection_ptr: nat) (collection_flag: int)
    (children: "collection list") (gobject: "nat list")

text \<open>\<^verbatim>\<open>LayerCollection\<close>: its own address, the \<^verbatim>\<open>collection\<close> pointer (NULL after an
  ID remap), its flags and its child list.\<close>

datatype layer_collection =
  LayerCollection (lc_ptr: nat) (lc_collection: "nat option") (lc_flag: int)
    (lc_layer_collections: "layer_collection list")

text \<open>The memory the functions work on: the \<^verbatim>\<open>Base\<close> at every address, the
  \<^verbatim>\<open>id.flag\<close> of every object, the \<^verbatim>\<open>parents\<close> list of every collection (the
  collection pointers of its \<^verbatim>\<open>CollectionParent\<close> links, in order), the next fresh
  address \<^verbatim>\<open>MEM_callocN\<close> hands out for a \<^verbatim>\<open>Base\<close> and for a
  \<^verbatim>\<open>LayerCollection\<close>, and the layer collections that are still allocated but
  in no list any more (\<^verbatim>\<open>layer_collection_sync\<close> overwrites a list without freeing
  what is left in it).\<close>

record memory =
  bases :: "nat \<Rightarrow> base"
  id_flag :: "nat \<Rightarrow> int"
  parents :: "nat \<Rightarrow> nat list"
  base_next :: nat
  lc_next :: nat
  lc_unlinked :: "layer_collection list"

text \<open>\<^verbatim>\<open>ViewLayer\<close>: the lists hold addresses (bases, override sets) or the owned
  tree (layer collections).\<close>

record view_layer =
  vl_flag :: int
  layer_collections :: "layer_collection list"
  active_collection :: "nat option"
  object_bases :: "nat list"
  object_bases_hash :: "(nat \<Rightarrow> nat option) option"
  object_bases_array :: "nat list option"
  basact :: "nat option"
  override_sets :: "nat list"
  active_override_set :: int

text \<open>\<^verbatim>\<open>Scene\<close>: the master collection, the view layers and the background
  scene \<^verbatim>\<open>set\<close>.\<close>

datatype Scene =
  Scene (master_collection: "collection option") (view_layers: "view_layer list")
    (scene_set: "Scene option")

subsection \<open>Selecting a base\<close>

definition BKE_view_layer_base_select ::
  "memory \<Rightarrow> view_layer \<Rightarrow> nat \<Rightarrow> memory \<times> view_layer" where
  "BKE_view_layer_base_select m view_layer selbase =
     (let view_layer = view_layer\<lparr>basact := Some selbase\<rparr> in
      if flag (bases m selbase) AND BASE_SELECTABLED \<noteq> 0
      then (m\<lparr>bases := (bases m)(selbase :=
              (bases m selbase)\<lparr>flag := flag (bases m selbase) OR BASE_SELECTED\<rparr>)\<rparr>,
            view_layer)
      else (m, view_layer))"

subsection \<open>Override sets\<close>

fun BLI_findindex :: "'a list \<Rightarrow> 'a \<Rightarrow> int" where
  "BLI_findindex [] vlink = -1"
| "BLI_findindex (link # lb) vlink =
     (if link = vlink then 0
      else (let number = BLI_findindex lb vlink in if number = -1 then -1 else number + 1))"

definition BLI_listbase_count :: "'a list \<Rightarrow> int" where
  "BLI_listbase_count lb = int (length lb)"

definition BKE_view_layer_override_set_remove ::
  "view_layer \<Rightarrow> nat \<Rightarrow> bool \<times> view_layer" where
  "BKE_view_layer_override_set_remove view_layer override_set =
     (let override_set_index = BLI_findindex (override_sets view_layer) override_set in
      if override_set_index = -1 then (False, view_layer)
      else
        let view_layer = view_layer\<lparr>override_sets := remove1 override_set (override_sets view_layer)\<rparr> in
        if active_override_set view_layer > override_set_index
        then (True, view_layer\<lparr>active_override_set := active_override_set view_layer - 1\<rparr>)
        else if active_override_set view_layer = override_set_index
        then (if override_set_index = BLI_listbase_count (override_sets view_layer)
              then (True, view_layer\<lparr>active_override_set := max 0 (override_set_index - 1)\<rparr>)
              else (True, view_layer))
        else (True, view_layer))"

text \<open>
  Modelled from the spec: \<^verbatim>\<open>DynamicOverrideProperty\<close> and \<^verbatim>\<open>OverrideSet\<close> are declared in
  \<^verbatim>\<open>DNA_layer_types.h\<close>, which is not among the sources. The captured value is the
  spec's tagged union (integer or boolean array, float array, string, ID reference);
  a property whose type has no case in the switch keeps the zeroed payload of
  \<^verbatim>\<open>MEM_callocN\<close>. The affected collections are the \<^verbatim>\<open>data\<close> pointers of the
  \<^verbatim>\<open>LinkData\<close> list, in order.
\<close>

text \<open>A float is only copied here, never computed with: it is its bit pattern.\<close>

type_synonym float = nat

datatype dyn_data =
  DATA_ZERO | DATA_I "int list" | DATA_F "float list" | DATA_STR string | DATA_ID nat

datatype eDynamicOverridePropertyType =
  DYN_OVERRIDE_PROP_TYPE_SCENE | DYN_OVERRIDE_PROP_TYPE_COLLECTION

datatype ID_Type = ID_OB | ID_ME | ID_MA | ID_SCE | ID_WO | ID_OTHER nat

datatype PropertyType =
  PROP_BOOLEAN | PROP_INT | PROP_FLOAT | PROP_STRING | PROP_ENUM | PROP_POINTER | PROP_COLLECTION

datatype eIDOverrideStaticOperation =
  IDOVERRIDESTATIC_OP_NOOP | IDOVERRIDESTATIC_OP_REPLACE

record DynamicOverrideProperty =
  dyn_flag :: int
  operation :: eIDOverrideStaticOperation
  root :: nat
  id_type :: ID_Type
  property_type :: eDynamicOverridePropertyType
  rna_path :: string
  array_len :: int
  data :: dyn_data

record OverrideSet =
  affected_collections :: "nat list"
  active_affected_collection :: int
  scene_properties :: "DynamicOverrideProperty list"
  collection_properties :: "DynamicOverrideProperty list"

definition BKE_view_layer_override_set_collection_unlink ::
  "OverrideSet \<Rightarrow> nat \<Rightarrow> bool \<times> OverrideSet" where
  "BKE_view_layer_override_set_collection_unlink override_set collection =
     (case find (\<lambda>data. data = collection) (affected_collections override_set) of
        None \<Rightarrow> (False, override_set)
      | Some link \<Rightarrow>
        let collection_index = BLI_findindex (affected_collections override_set) link;
            override_set = override_set\<lparr>affected_collections :=
              remove1 link (affected_collections override_set)\<rparr> in
        if active_affected_collection override_set > collection_index
        then (True, override_set\<lparr>active_affected_collection :=
                active_affected_collection override_set - 1\<rparr>)
        else if active_affected_collection override_set = collection_index
        then (if collection_index = BLI_listbase_count (affected_collections override_set)
              then (True, override_set\<lparr>active_affected_collection := max 0 (collection_index - 1)\<rparr>)
              else (True, override_set))
        else (True, override_set))"

text \<open>What the RNA functions answer for the pointer and property handed to
  \<^verbatim>\<open>BKE_view_layer_override_property_add\<close>: the owner \<^verbatim>\<open>ptr->id.data\<close> and the code
  of its name, the path of \<^verbatim>\<open>RNA_path_from_ID_to_property_index\<close> (NULL when there is
  none), the array length and check, the property type and the getters' values.\<close>

record rna_property =
  owner_id :: nat
  owner_id_type :: ID_Type
  RNA_path_from_ID_to_property_index :: "string option"
  RNA_property_array_length :: int
  RNA_property_array_check :: bool
  RNA_property_type :: PropertyType
  RNA_property_boolean_get_array :: "int list"
  RNA_property_boolean_get :: int
  RNA_property_int_get_array :: "int list"
  RNA_property_int_get :: int
  RNA_property_float_get_array :: "float list"
  RNA_property_float_get :: float
  RNA_property_string_get_alloc :: string
  RNA_property_enum_get :: int
  RNA_property_pointer_get :: nat

text \<open>The switch over \<^verbatim>\<open>RNA_property_type(prop)\<close> that captures the value.\<close>

definition property_snapshot :: "rna_property \<Rightarrow> dyn_data" where
  "property_snapshot prop =
     (let is_array = RNA_property_array_check prop in
      case RNA_property_type prop of
        PROP_BOOLEAN \<Rightarrow>
          (if is_array then DATA_I (RNA_property_boolean_get_array prop)
           else DATA_I [RNA_property_boolean_get prop])
      | PROP_INT \<Rightarrow>
          (if is_array then DATA_I (RNA_property_int_get_array prop)
           else DATA_I [RNA_property_int_get prop])
      | PROP_FLOAT \<Rightarrow>
          (if is_array then DATA_F (RNA_property_float_get_array prop)
           else DATA_F [RNA_property_float_get prop])
      | PROP_STRING \<Rightarrow> DATA_STR (RNA_property_string_get_alloc prop)
      | PROP_ENUM \<Rightarrow> DATA_I [RNA_property_enum_get prop]
      | PROP_POINTER \<Rightarrow> DATA_ID (RNA_property_pointer_get prop)
      | PROP_COLLECTION \<Rightarrow> DATA_ZERO)"

text \<open>\<^verbatim>\<open>BKE_view_layer_override_property_add\<close>. The first argument is
  \<^verbatim>\<open>ARRAY_SIZE(((DynamicOverrideProperty *)NULL)->data.i)\<close>, a constant of the absent
  header, of type \<^verbatim>\<open>size_t\<close>. In \<^verbatim>\<open>array_len > ARRAY_SIZE(...)\<close> the
  \<^verbatim>\<open>int\<close> on the left is converted to \<^verbatim>\<open>size_t\<close> (64 bits), so that a negative
  length compares as a large one.\<close>

definition size_t_of_int :: "int \<Rightarrow> int" where
  "size_t_of_int i = i mod 2 ^ 64"

definition BKE_view_layer_override_property_add ::
  "nat \<Rightarrow> OverrideSet \<Rightarrow> rna_property \<Rightarrow> DynamicOverrideProperty option \<times> OverrideSet" where
  "BKE_view_layer_override_property_add array_size override_set prop =
     (case (case owner_id_type prop of
              ID_OB \<Rightarrow> Some DYN_OVERRIDE_PROP_TYPE_COLLECTION
            | ID_ME \<Rightarrow> Some DYN_OVERRIDE_PROP_TYPE_COLLECTION
            | ID_MA \<Rightarrow> Some DYN_OVERRIDE_PROP_TYPE_COLLECTION
            | ID_SCE \<Rightarrow> Some DYN_OVERRIDE_PROP_TYPE_SCENE
            | ID_WO \<Rightarrow> Some DYN_OVERRIDE_PROP_TYPE_SCENE
            | ID_OTHER _ \<Rightarrow> None) of
        None \<Rightarrow> (None, override_set)
      | Some ptype \<Rightarrow>
          (case RNA_path_from_ID_to_property_index prop of
             None \<Rightarrow> (None, override_set)
           | Some rna_path_str \<Rightarrow>
               if size_t_of_int (RNA_property_array_length prop) > int array_size
               then (None, override_set)
               else
                 let dyn_prop = \<lparr>dyn_flag = DYN_OVERRIDE_PROP_USE,
                       operation = IDOVERRIDESTATIC_OP_REPLACE,
                       root = owner_id prop,
                       id_type = owner_id_type prop,
                       property_type = ptype,
                       rna_path = rna_path_str,
                       array_len = RNA_property_array_length prop,
                       data = property_snapshot prop\<rparr> in
                 if ptype = DYN_OVERRIDE_PROP_TYPE_SCENE
                 then (Some dyn_prop, override_set\<lparr>scene_properties :=
                         scene_properties override_set @ [dyn_prop]\<rparr>)
                 else (Some dyn_prop, override_set\<lparr>collection_properties :=
                         collection_properties override_set @ [dyn_prop]\<rparr>)))"

subsection \<open>Synchronising the layer collections and the bases\<close>

text \<open>\<^verbatim>\<open>layer_collection_free\<close>: when the freed layer collection, or one below it, is
  the active one, the first of the view layer's list becomes active.\<close>

definition layer_collections_first :: "view_layer \<Rightarrow> nat option" where
  "layer_collections_first view_layer =
     (case layer_collections view_layer of [] \<Rightarrow> None | lc # _ \<Rightarrow> Some (lc_ptr lc))"

fun layer_collection_free :: "view_layer \<Rightarrow> layer_collection \<Rightarrow> view_layer" where
  "layer_collection_free view_layer (LayerCollection ptr collection lcflag lcs) =
     fold (\<lambda>nlc view_layer. layer_collection_free view_layer nlc) lcs
       (if Some ptr = active_collection view_layer
        then view_layer\<lparr>active_collection := layer_collections_first view_layer\<rparr>
        else view_layer)"

text \<open>\<^verbatim>\<open>view_layer_bases_hash_create\<close> and the hash accessors. The hash is never NULL
  where \<^verbatim>\<open>layer_collection_sync\<close> reads it: \<^verbatim>\<open>BKE_layer_collection_sync\<close> creates it
  first.\<close>

definition view_layer_bases_hash_create :: "memory \<Rightarrow> view_layer \<Rightarrow> view_layer" where
  "view_layer_bases_hash_create mem view_layer =
     (if object_bases_hash view_layer = None
      then view_layer\<lparr>object_bases_hash :=
             Some (fold (\<lambda>base gh. gh(object (bases mem base) \<mapsto> base))
                     (object_bases view_layer) Map.empty)\<rparr>
      else view_layer)"

definition BLI_ghash_lookup :: "(nat \<Rightarrow> nat option) option \<Rightarrow> nat \<Rightarrow> nat option" where
  "BLI_ghash_lookup gh key = (case gh of None \<Rightarrow> None | Some h \<Rightarrow> h key)"

definition BLI_ghash_insert ::
  "(nat \<Rightarrow> nat option) option \<Rightarrow> nat \<Rightarrow> nat \<Rightarrow> (nat \<Rightarrow> nat option) option" where
  "BLI_ghash_insert gh key val = (case gh of None \<Rightarrow> None | Some h \<Rightarrow> Some (h(key \<mapsto> val)))"

definition BLI_ghash_remove ::
  "(nat \<Rightarrow> nat option) option \<Rightarrow> nat \<Rightarrow> (nat \<Rightarrow> nat option) option" where
  "BLI_ghash_remove gh key = (case gh of None \<Rightarrow> None | Some h \<Rightarrow> Some (h(key := None)))"

text \<open>The state \<^verbatim>\<open>layer_collection_sync\<close> works on: the memory, the view layer and
  the list \<^verbatim>\<open>new_object_bases\<close> of the caller.\<close>

record sync_state =
  mem :: memory
  view :: view_layer
  new_object_bases :: "nat list"

text \<open>\<^verbatim>\<open>lb_layer\<close> is a pointer to a list. In the outermost call it points at
  \<^verbatim>\<open>view_layer->layer_collections\<close>, which \<^verbatim>\<open>layer_collection_free\<close> reads; the flag
  \<open>outer\<close> records that, and a write through \<^verbatim>\<open>lb_layer\<close> is then a write to the view
  layer's list.\<close>

definition lb_layer_write :: "bool \<Rightarrow> layer_collection list \<Rightarrow> sync_state \<Rightarrow> sync_state" where
  "lb_layer_write outer lb_layer st =
     (if outer then st\<lparr>view := (view st)\<lparr>layer_collections := lb_layer\<rparr>\<rparr> else st)"

text \<open>The first loop: layer collections without a scene collection are freed.
  \<open>kept\<close> are the links before \<open>lc\<close> that stay in the list.\<close>

fun layer_collection_sync_remove ::
  "bool \<Rightarrow> collection list \<Rightarrow> layer_collection list \<Rightarrow> layer_collection list \<Rightarrow> sync_state
     \<Rightarrow> layer_collection list \<times> sync_state" where
  "layer_collection_sync_remove outer lb_scene kept [] st = (kept, st)"
| "layer_collection_sync_remove outer lb_scene kept (lc # lcs) st =
     (let collection =
            (case lc_collection lc of
               None \<Rightarrow> None
             | Some c \<Rightarrow> find (\<lambda>child. collection_ptr child = c) lb_scene) in
      if collection = None
      then layer_collection_sync_remove outer lb_scene kept lcs
             (lb_layer_write outer (kept @ lcs)
                (st\<lparr>view := layer_collection_free (view st) lc\<rparr>))
      else layer_collection_sync_remove outer lb_scene (kept @ [lc]) lcs st)"

text \<open>The flag bits one visit of an object sets on its base.\<close>

definition sync_base_flag :: "int \<Rightarrow> int \<Rightarrow> int" where
  "sync_base_flag child_restrict bflag =
     (let bflag =
        (if child_restrict AND COLLECTION_RESTRICT_VIEW = 0
         then (let bflag = bflag OR (BASE_VISIBLED OR BASE_VISIBLE_VIEWPORT) in
               if child_restrict AND COLLECTION_RESTRICT_SELECT = 0
               then bflag OR BASE_SELECTABLED else bflag)
         else bflag) in
      if child_restrict AND COLLECTION_RESTRICT_RENDER = 0
      then bflag OR BASE_VISIBLE_RENDER else bflag)"

text \<open>The body of the loop over \<^verbatim>\<open>collection->gobject\<close>. \<^verbatim>\<open>BLI_remlink\<close> unlinks
  through the \<^verbatim>\<open>prev\<close> and \<^verbatim>\<open>next\<close> pointers of the link, so it takes the base out
  of the list that holds it: the old list, or the new one when the base was moved
  before and is neither its first nor its last link.\<close>

definition layer_collection_sync_object :: "int \<Rightarrow> nat \<Rightarrow> sync_state \<Rightarrow> sync_state" where
  "layer_collection_sync_object child_restrict ob st =
     (let (base, st) =
        (case BLI_ghash_lookup (object_bases_hash (view st)) ob of
           Some base \<Rightarrow>
             (if new_object_bases st \<noteq> [] \<and>
                 (base = hd (new_object_bases st) \<or> base = last (new_object_bases st))
              then (base, st)
              else (base, st\<lparr>view := (view st)\<lparr>object_bases := remove1 base (object_bases (view st))\<rparr>,
                              new_object_bases := remove1 base (new_object_bases st) @ [base]\<rparr>))
         | None \<Rightarrow>
             (let base = base_next (mem st) in
              (base, st\<lparr>mem := (mem st)\<lparr>bases := (bases (mem st))(base := \<lparr>object = ob, flag = 0\<rparr>),
                                         base_next := Suc base\<rparr>,
                         new_object_bases := new_object_bases st @ [base],
                         view := (view st)\<lparr>object_bases_hash :=
                           BLI_ghash_insert (object_bases_hash (view st)) ob base\<rparr>\<rparr>))) in
      st\<lparr>mem := (mem st)\<lparr>bases := (bases (mem st))(base :=
            (bases (mem st) base)\<lparr>flag := sync_base_flag child_restrict (flag (bases (mem st) base))\<rparr>)\<rparr>\<rparr>)"

text \<open>The second loop: the layer collection of a scene collection is looked up in the
  old list, or made by \<^verbatim>\<open>layer_collection_add\<close> with the flag \<^verbatim>\<open>parent_exclude\<close>.\<close>

definition layer_collection_sync_find ::
  "bool \<Rightarrow> int \<Rightarrow> nat \<Rightarrow> layer_collection list \<Rightarrow> sync_state
     \<Rightarrow> layer_collection \<times> layer_collection list \<times> sync_state" where
  "layer_collection_sync_find outer parent_exclude collection lb_layer st =
     (case find (\<lambda>lc. lc_collection lc = Some collection) lb_layer of
        Some lc \<Rightarrow> (lc, remove1 lc lb_layer, lb_layer_write outer (remove1 lc lb_layer) st)
      | None \<Rightarrow>
          (LayerCollection (lc_next (mem st)) (Some collection) parent_exclude [],
           lb_layer,
           st\<lparr>mem := (mem st)\<lparr>lc_next := Suc (lc_next (mem st))\<rparr>\<rparr>))"

definition layer_collection_sync_objects ::
  "int \<Rightarrow> int \<Rightarrow> nat list \<Rightarrow> sync_state \<Rightarrow> sync_state" where
  "layer_collection_sync_objects lcflag child_restrict gobjects st =
     (if lcflag AND LAYER_COLLECTION_EXCLUDE \<noteq> 0 then st
      else fold (layer_collection_sync_object child_restrict) gobjects st)"

text \<open>The assignment \<^verbatim>\<open>*lb_layer = new_lb_layer\<close> that closes
  \<^verbatim>\<open>layer_collection_sync\<close>: the layer collections still in the old list are neither
  freed nor linked anywhere afterwards.\<close>

definition lb_layer_replace ::
  "bool \<Rightarrow> layer_collection list \<Rightarrow> layer_collection list \<Rightarrow> sync_state \<Rightarrow> sync_state" where
  "lb_layer_replace outer lb_layer new_lb_layer st =
     lb_layer_write outer new_lb_layer
       (st\<lparr>mem := (mem st)\<lparr>lc_unlinked := lc_unlinked (mem st) @ lb_layer\<rparr>\<rparr>)"

text \<open>\<^verbatim>\<open>layer_collection_sync\<close>, and the loop over \<^verbatim>\<open>lb_scene\<close> in it, which
  answers the old list, the new list and the state.\<close>

fun layer_collection_sync ::
  "bool \<Rightarrow> collection list \<Rightarrow> layer_collection list \<Rightarrow> int \<Rightarrow> int \<Rightarrow> sync_state
     \<Rightarrow> layer_collection list \<times> sync_state"
and layer_collection_sync_add ::
  "bool \<Rightarrow> collection list \<Rightarrow> layer_collection list \<Rightarrow> layer_collection list \<Rightarrow> int \<Rightarrow> int
     \<Rightarrow> sync_state \<Rightarrow> layer_collection list \<times> layer_collection list \<times> sync_state" where
  "layer_collection_sync outer lb_scene lb_layer parent_exclude parent_restrict st =
     (case layer_collection_sync_remove outer lb_scene [] lb_layer st of
        (lb_layer, st) \<Rightarrow>
          (case layer_collection_sync_add outer lb_scene lb_layer [] parent_exclude parent_restrict st of
             (lb_layer, new_lb_layer, st) \<Rightarrow>
               (new_lb_layer, lb_layer_replace outer lb_layer new_lb_layer st)))"
| "layer_collection_sync_add outer [] lb_layer new_lb_layer parent_exclude parent_restrict st =
     (lb_layer, new_lb_layer, st)"
| "layer_collection_sync_add outer (Collection collection cflag cchildren cgobject # lb_scene)
       lb_layer new_lb_layer parent_exclude parent_restrict st =
     (case layer_collection_sync_find outer parent_exclude collection lb_layer st of
        (lc, lb_layer, st) \<Rightarrow>
          (let child_restrict =
                 (if cflag AND COLLECTION_IS_MASTER = 0 then parent_restrict OR cflag
                  else parent_restrict) in
           case layer_collection_sync False cchildren (lc_layer_collections lc)
                  (lc_flag lc) child_restrict st of
             (lcs, st) \<Rightarrow>
               layer_collection_sync_add outer lb_scene lb_layer
                 (new_lb_layer @ [LayerCollection (lc_ptr lc) (lc_collection lc) (lc_flag lc) lcs])
                 parent_exclude parent_restrict
                 (layer_collection_sync_objects (lc_flag lc) child_restrict cgobject st)))"

text \<open>\<^verbatim>\<open>BKE_layer_collection_sync\<close> up to the point where the base list is replaced:
  the array cache is freed, the hash created, the four flags cleared on every base, the
  tree and the bases synchronised from the master collection, and the bases left in
  the old list removed.\<close>

definition sync_clear_flags :: "nat list \<Rightarrow> (nat \<Rightarrow> base) \<Rightarrow> (nat \<Rightarrow> base)" where
  "sync_clear_flags lb bs =
     fold (\<lambda>base bs. bs(base := (bs base)\<lparr>flag := flag (bs base) AND
             NOT (BASE_VISIBLED OR BASE_SELECTABLED OR BASE_VISIBLE_VIEWPORT OR BASE_VISIBLE_RENDER)\<rparr>))
       lb bs"

definition sync_remove_bases :: "memory \<Rightarrow> nat list \<Rightarrow> view_layer \<Rightarrow> view_layer" where
  "sync_remove_bases m lb view_layer =
     fold (\<lambda>base view_layer.
             (if basact view_layer = Some base then view_layer\<lparr>basact := None\<rparr> else view_layer)
               \<lparr>object_bases_hash :=
                  BLI_ghash_remove (object_bases_hash view_layer) (object (bases m base))\<rparr>)
       lb view_layer"

definition layer_collection_sync_lists ::
  "collection \<Rightarrow> memory \<Rightarrow> view_layer \<Rightarrow> memory \<times> view_layer" where
  "layer_collection_sync_lists master m view_layer =
     (let view_layer = view_layer\<lparr>object_bases_array := None\<rparr>;
          view_layer = view_layer_bases_hash_create m view_layer;
          m = m\<lparr>bases := sync_clear_flags (object_bases view_layer) (bases m)\<rparr>;
          st = snd (layer_collection_sync True [master] (layer_collections view_layer) 0 0
                      \<lparr>mem = m, view = view_layer, new_object_bases = []\<rparr>);
          view_layer = sync_remove_bases (mem st) (object_bases (view st)) (view st)
      in (mem st, view_layer\<lparr>object_bases := new_object_bases st\<rparr>))"

text \<open>The layer collection an address designates: the first node of the tree with
  that address.\<close>

fun layer_collection_at :: "layer_collection \<Rightarrow> nat \<Rightarrow> layer_collection option"
and layer_collection_at_list :: "layer_collection list \<Rightarrow> nat \<Rightarrow> layer_collection option" where
  "layer_collection_at (LayerCollection ptr collection lcflag lcs) p =
     (if ptr = p then Some (LayerCollection ptr collection lcflag lcs)
      else layer_collection_at_list lcs p)"
| "layer_collection_at_list [] p = None"
| "layer_collection_at_list (lc # lcs) p =
     (case layer_collection_at lc p of
        Some found \<Rightarrow> Some found
      | None \<Rightarrow> layer_collection_at_list lcs p)"

fun find_layer_collection_by_scene_collection ::
  "layer_collection \<Rightarrow> nat \<Rightarrow> layer_collection option"
and BKE_layer_collection_first_from_scene_collection_list ::
  "layer_collection list \<Rightarrow> nat \<Rightarrow> layer_collection option" where
  "find_layer_collection_by_scene_collection (LayerCollection ptr c lcflag lcs) collection =
     (if c = Some collection then Some (LayerCollection ptr c lcflag lcs)
      else BKE_layer_collection_first_from_scene_collection_list lcs collection)"
| "BKE_layer_collection_first_from_scene_collection_list [] collection = None"
| "BKE_layer_collection_first_from_scene_collection_list (nlc # lcs) collection =
     (case find_layer_collection_by_scene_collection nlc collection of
        Some found \<Rightarrow> Some found
      | None \<Rightarrow> BKE_layer_collection_first_from_scene_collection_list lcs collection)"

definition BKE_layer_collection_first_from_scene_collection ::
  "view_layer \<Rightarrow> nat \<Rightarrow> layer_collection option" where
  "BKE_layer_collection_first_from_scene_collection view_layer collection =
     BKE_layer_collection_first_from_scene_collection_list (layer_collections view_layer) collection"

text \<open>\<^verbatim>\<open>BKE_layer_collection_activate_parent\<close>. The result is \<open>None\<close> when the call does
  not return: the recursion over the first parents never ends, or \<^verbatim>\<open>lc->collection\<close>
  is NULL and is dereferenced.\<close>

partial_function (option) BKE_layer_collection_activate_parent ::
  "memory \<Rightarrow> view_layer \<Rightarrow> layer_collection \<Rightarrow> view_layer option" where
  "BKE_layer_collection_activate_parent m view_layer lc =
     (case lc_collection lc of
        None \<Rightarrow> None
      | Some collection \<Rightarrow>
          (case (case parents m collection of
                   [] \<Rightarrow> None
                 | parent # _ \<Rightarrow> BKE_layer_collection_first_from_scene_collection view_layer parent) of
             Some lc \<Rightarrow>
               if lc_flag lc AND LAYER_COLLECTION_EXCLUDE \<noteq> 0
               then BKE_layer_collection_activate_parent m view_layer lc
               else Some (view_layer\<lparr>active_collection := Some (lc_ptr lc)\<rparr>)
           | None \<Rightarrow>
               Some (view_layer\<lparr>active_collection := layer_collections_first view_layer\<rparr>)))"

text \<open>\<^verbatim>\<open>BKE_layer_collection_sync\<close>. The flag of the active layer collection is
  read through its address: in the tree, or among the layer collections that are
  allocated but unlinked. The result is \<open>None\<close> when the call has no result: the
  address is that of no allocated layer collection (one that was freed), or
  \<^verbatim>\<open>BKE_layer_collection_activate_parent\<close> does not return.\<close>

definition BKE_layer_collection_sync ::
  "Scene \<Rightarrow> memory \<Rightarrow> view_layer \<Rightarrow> (memory \<times> view_layer) option" where
  "BKE_layer_collection_sync scene m view_layer =
     (case master_collection scene of
        None \<Rightarrow> Some (m, view_layer)
      | Some master \<Rightarrow>
          (case layer_collection_sync_lists master m view_layer of
             (m, view_layer) \<Rightarrow>
               (case active_collection view_layer of
                  None \<Rightarrow>
                    Some (m, view_layer\<lparr>active_collection := layer_collections_first view_layer\<rparr>)
                | Some p \<Rightarrow>
                    (case layer_collection_at_list
                            (layer_collections view_layer @ lc_unlinked m) p of
                       None \<Rightarrow> None
                     | Some active \<Rightarrow>
                         if lc_flag active AND LAYER_COLLECTION_EXCLUDE \<noteq> 0
                         then map_option (Pair m)
                                (BKE_layer_collection_activate_parent m view_layer active)
                         else Some (m, view_layer)))))"

subsection \<open>The iterator over the renderable objects\<close>

definition BKE_view_layer_default_render :: "Scene \<Rightarrow> view_layer option" where
  "BKE_view_layer_default_render scene =
     (case find (\<lambda>view_layer. vl_flag view_layer AND VIEW_LAYER_RENDER \<noteq> 0) (view_layers scene) of
        Some view_layer \<Rightarrow> Some view_layer
      | None \<Rightarrow> (case view_layers scene of [] \<Rightarrow> None | view_layer # _ \<Rightarrow> Some view_layer))"

text \<open>\<^verbatim>\<open>ObjectsRenderableIteratorData\<close>. A pointer into a list is the list from the
  link on: \<open>iter_view_layer\<close> is \<^verbatim>\<open>iter.view_layer\<close> with the view layers after it, and
  \<open>iter_base_next\<close> the bases after \<^verbatim>\<open>iter.base\<close> (all bases of a view layer when
  \<^verbatim>\<open>iter.base\<close> is \<^verbatim>\<open>base_temp\<close>). \<^verbatim>\<open>iter.set\<close> is NULL, \<^verbatim>\<open>scene_temp\<close> (whose
  \<^verbatim>\<open>set\<close> is the scene of the data, \<open>iter_scene\<close>) or a scene.\<close>

datatype iter_set = SET_NULL | SET_TEMP | SET_SCENE Scene

record ObjectsRenderableIteratorData =
  iter_scene :: Scene
  iter_view_layer :: "view_layer list"
  iter_base_next :: "nat list"
  iter_set :: iter_set

record BLI_Iterator =
  current :: nat
  valid :: bool
  skip :: bool
  iter_data :: ObjectsRenderableIteratorData

definition tag_bases :: "nat list \<Rightarrow> memory \<Rightarrow> memory" where
  "tag_bases lb m =
     fold (\<lambda>base m. m\<lparr>id_flag := (id_flag m)(object (bases m base) :=
             id_flag m (object (bases m base)) OR LIB_TAG_DOIT)\<rparr>) lb m"

fun tag_scenes :: "Scene \<Rightarrow> memory \<Rightarrow> memory" where
  "tag_scenes (Scene master vls sset) m =
     (let m = fold (\<lambda>view_layer m. tag_bases (object_bases view_layer) m) vls m in
      case sset of None \<Rightarrow> m | Some scene \<Rightarrow> tag_scenes scene m)"

text \<open>\<^verbatim>\<open>BKE_view_layer_renderable_objects_iterator_next\<close>. The result is \<open>None\<close> when
  the view layer pointer that is dereferenced is NULL: a scene without view layers.\<close>

definition iter_set_next :: "ObjectsRenderableIteratorData \<Rightarrow> Scene option" where
  "iter_set_next d =
     (case iter_set d of
        SET_NULL \<Rightarrow> None
      | SET_TEMP \<Rightarrow> Some (iter_scene d)
      | SET_SCENE s \<Rightarrow> scene_set s)"

definition BKE_view_layer_renderable_objects_iterator_next ::
  "memory \<Rightarrow> BLI_Iterator \<Rightarrow> (memory \<times> BLI_Iterator) option" where
  "BKE_view_layer_renderable_objects_iterator_next m iter =
     (let iter = iter\<lparr>skip := True\<rparr>; d = iter_data iter in
      case iter_base_next d of
        base # rest \<Rightarrow>
          (let ob = object (bases m base); d = d\<lparr>iter_base_next := rest\<rparr> in
           if id_flag m ob AND LIB_TAG_DOIT \<noteq> 0
           then (let m = m\<lparr>id_flag := (id_flag m)(ob := id_flag m ob AND NOT LIB_TAG_DOIT)\<rparr> in
                 if flag (bases m base) AND BASE_VISIBLED \<noteq> 0
                 then Some (m, iter\<lparr>skip := False, current := ob, iter_data := d\<rparr>)
                 else Some (m, iter\<lparr>iter_data := d\<rparr>))
           else Some (m, iter\<lparr>iter_data := d\<rparr>))
      | [] \<Rightarrow>
          if iter_set d = SET_NULL
          then (case iter_view_layer d of
                  [] \<Rightarrow> None
                | _ # vls \<Rightarrow>
                    (case dropWhile (\<lambda>view_layer. vl_flag view_layer AND VIEW_LAYER_RENDER = 0) vls of
                       view_layer # vls' \<Rightarrow>
                         Some (m, iter\<lparr>iter_data := d\<lparr>iter_view_layer := view_layer # vls',
                                         iter_base_next := object_bases view_layer\<rparr>\<rparr>)
                     | [] \<Rightarrow>
                         Some (m, iter\<lparr>iter_data := d\<lparr>iter_view_layer := [], iter_set := SET_TEMP\<rparr>\<rparr>)))
          else (case iter_set_next d of
                  Some s \<Rightarrow>
                    (case BKE_view_layer_default_render s of
                       None \<Rightarrow> None
                     | Some view_layer \<Rightarrow>
                         Some (m, iter\<lparr>iter_data := d\<lparr>iter_set := SET_SCENE s,
                                         iter_base_next := object_bases view_layer\<rparr>\<rparr>))
                | None \<Rightarrow> Some (m, iter\<lparr>valid := False, iter_data := d\<lparr>iter_set := SET_NULL\<rparr>\<rparr>)))"

definition BKE_view_layer_renderable_objects_iterator_begin ::
  "memory \<Rightarrow> BLI_Iterator \<Rightarrow> Scene \<Rightarrow> (memory \<times> BLI_Iterator) option" where
  "BKE_view_layer_renderable_objects_iterator_begin m iter data_scene =
     (let m = tag_scenes data_scene m in
      case view_layers data_scene of
        [] \<Rightarrow> None
      | view_layer # vls \<Rightarrow>
          BKE_view_layer_renderable_objects_iterator_next m
            (iter\<lparr>iter_data := \<lparr>iter_scene = data_scene, iter_view_layer = view_layer # vls,
                                iter_base_next = object_bases view_layer, iter_set = SET_NULL\<rparr>\<rparr>))"

text \<open>The traversal: after \<^verbatim>\<open>begin\<close> and after every \<^verbatim>\<open>next\<close>, while the iterator is
  valid, the current object is yielded unless the step is marked to be skipped. The
  objects yielded are collected in order.\<close>

fun scene_chain :: "Scene \<Rightarrow> Scene list" where
  "scene_chain (Scene master vls sset) =
     Scene master vls sset # (case sset of None \<Rightarrow> [] | Some scene \<Rightarrow> scene_chain scene)"

definition iter_set_rank :: "ObjectsRenderableIteratorData \<Rightarrow> nat" where
  "iter_set_rank d =
     (case iter_set d of
        SET_NULL \<Rightarrow> length (scene_chain (iter_scene d)) + 2
      | SET_TEMP \<Rightarrow> length (scene_chain (iter_scene d)) + 1
      | SET_SCENE s \<Rightarrow> length (scene_chain s))"

function renderable_objects_loop :: "memory \<Rightarrow> BLI_Iterator \<Rightarrow> (nat list \<times> memory) option" where
  "renderable_objects_loop m iter =
     (if \<not> valid iter then Some ([], m)
      else
        case BKE_view_layer_renderable_objects_iterator_next m (iter\<lparr>skip := False\<rparr>) of
          None \<Rightarrow> None
        | Some (m', iter') \<Rightarrow>
            (case renderable_objects_loop m' iter' of
               None \<Rightarrow> None
             | Some (obs, m'') \<Rightarrow> Some ((if skip iter then [] else [current iter]) @ obs, m'')))"
  by pat_completeness auto
termination
proof (relation "measures [\<lambda>(m, iter). if valid iter then 1 else 0,
                           \<lambda>(m, iter). iter_set_rank (iter_data iter),
                           \<lambda>(m, iter). length (iter_view_layer (iter_data iter)),
                           \<lambda>(m, iter). length (iter_base_next (iter_data iter))]", goal_cases)
  case 1
  show ?case by simp
next
  case (2 m iter x2 m' iter')
  have len: "length (dropWhile P xs) \<le> length xs" for P and xs :: "view_layer list"
    by (induction xs) auto
  have chain: "scene_set s = Some s' \<Longrightarrow> length (scene_chain s) = Suc (length (scene_chain s'))" for s s'
    by (cases s) auto
  from 2 show ?case
    using len[of "\<lambda>view_layer. vl_flag view_layer AND VIEW_LAYER_RENDER = 0" "tl (iter_view_layer (iter_data iter))"]
    by (auto simp: BKE_view_layer_renderable_objects_iterator_next_def Let_def iter_set_rank_def
          iter_set_next_def chain
        split: list.splits if_splits option.splits iter_set.splits)
qed

definition renderable_objects_traverse :: "memory \<Rightarrow> Scene \<Rightarrow> (nat list \<times> memory) option" where
  "renderable_objects_traverse m data_scene =
     (case BKE_view_layer_renderable_objects_iterator_begin m
             \<lparr>current = 0, valid = True, skip = False,
              iter_data = \<lparr>iter_scene = data_scene, iter_view_layer = [], iter_base_next = [],
                           iter_set = SET_NULL\<rparr>\<rparr> data_scene of
        None \<Rightarrow> None
      | Some (m, iter) \<Rightarrow> renderable_objects_loop m iter)"

subsection \<open>Example states\<close>

definition ex_view_layer :: view_layer where
  "ex_view_layer =
     \<lparr>vl_flag = 0, layer_collections = [], active_collection = None, object_bases = [],
      object_bases_hash = None, object_bases_array = None, basact = None,
      override_sets = [10, 20, 30], active_override_set = 2\<rparr>"

definition ex_override_set :: OverrideSet where
  "ex_override_set =
     \<lparr>affected_collections = [5, 6, 7], active_affected_collection = 2,
      scene_properties = [], collection_properties = []\<rparr>"

definition ex_rna_property :: rna_property where
  "ex_rna_property =
     \<lparr>owner_id = 1, owner_id_type = ID_SCE,
      RNA_path_from_ID_to_property_index = Some ''frame_start'',
      RNA_property_array_length = 0, RNA_property_array_check = False,
      RNA_property_type = PROP_INT,
      RNA_property_boolean_get_array = [], RNA_property_boolean_get = 0,
      RNA_property_int_get_array = [], RNA_property_int_get = 5,
      RNA_property_float_get_array = [], RNA_property_float_get = 0,
      RNA_property_string_get_alloc = [], RNA_property_enum_get = 0,
      RNA_property_pointer_get = 0\<rparr>"

section \<open>Properties\<close>

subsection \<open>Selecting a base\<close>

text \<open>
  C10. \<^verbatim>\<open>BKE_view_layer_base_select\<close> makes the given base the active base of the view
  layer whatever its flags are. It sets \<^verbatim>\<open>BASE_SELECTED\<close> on the base when, and only
  when, the base has \<^verbatim>\<open>BASE_SELECTABLED\<close>; otherwise the flags of the base stay as they
  are. Nothing else changes, in the view layer or in memory.
\<close>

theorem base_select_sets_active:
  "BKE_view_layer_base_select m view_layer selbase =
     (m\<lparr>bases := (bases m)(selbase := (bases m selbase)\<lparr>flag :=
          (if flag (bases m selbase) AND BASE_SELECTABLED \<noteq> 0
           then flag (bases m selbase) OR BASE_SELECTED
           else flag (bases m selbase))\<rparr>)\<rparr>,
      view_layer\<lparr>basact := Some selbase\<rparr>)"
  by (simp add: BKE_view_layer_base_select_def Let_def)

subsection \<open>Override sets\<close>

lemma BLI_findindex_ge: "-1 \<le> BLI_findindex lb x"
  by (induction lb) (auto simp: Let_def)

lemma BLI_findindex_notin: "BLI_findindex lb x = -1 \<longleftrightarrow> x \<notin> set lb"
proof (induction lb)
  case Nil
  show ?case by simp
next
  case (Cons a lb)
  then show ?case
    using BLI_findindex_ge[of lb x] by (auto simp: Let_def)
qed

lemma BLI_findindex_bounds: "x \<in> set lb \<Longrightarrow> 0 \<le> BLI_findindex lb x \<and> BLI_findindex lb x < int (length lb)"
  by (induction lb) (auto simp: Let_def)

text \<open>
  C8. \<^verbatim>\<open>BKE_view_layer_override_set_remove\<close> returns false and leaves the view layer as
  it is when the set is not in the list of override sets. Otherwise it returns true, the
  set is taken out of the list, and the active index \<open>a\<close> becomes \<open>a - 1\<close> when it was
  past the index \<open>i\<close> of the set, \<open>max 0 (i - 1)\<close> when it was \<open>i\<close> and the set was the
  last one, and stays otherwise; an index that was valid is afterwards at least 0 and at
  most the new count minus one (0 for the empty list).
  \<^verbatim>\<open>BKE_view_layer_override_set_collection_unlink\<close> returns false when the collection is
  not among the affected collections and otherwise applies the same rule to
  \<^verbatim>\<open>active_affected_collection\<close>.
\<close>

theorem override_set_remove_index:
  "(override_set \<notin> set (override_sets view_layer) \<longrightarrow>
      BKE_view_layer_override_set_remove view_layer override_set = (False, view_layer)) \<and>
   (override_set \<in> set (override_sets view_layer) \<longrightarrow>
      (let i = BLI_findindex (override_sets view_layer) override_set;
           a = active_override_set view_layer;
           n = BLI_listbase_count (remove1 override_set (override_sets view_layer));
           a' = (if a > i then a - 1 else if a = i \<and> i = n then max 0 (i - 1) else a)
       in BKE_view_layer_override_set_remove view_layer override_set =
            (True, view_layer\<lparr>override_sets := remove1 override_set (override_sets view_layer),
                              active_override_set := a'\<rparr>) \<and>
          (0 \<le> a \<and> a < BLI_listbase_count (override_sets view_layer) \<longrightarrow>
             0 \<le> a' \<and> a' \<le> max 0 (n - 1)))) \<and>
   (collection \<notin> set (affected_collections os) \<longrightarrow>
      BKE_view_layer_override_set_collection_unlink os collection = (False, os)) \<and>
   (collection \<in> set (affected_collections os) \<longrightarrow>
      (let i = BLI_findindex (affected_collections os) collection;
           a = active_affected_collection os;
           n = BLI_listbase_count (remove1 collection (affected_collections os));
           a' = (if a > i then a - 1 else if a = i \<and> i = n then max 0 (i - 1) else a)
       in BKE_view_layer_override_set_collection_unlink os collection =
            (True, os\<lparr>affected_collections := remove1 collection (affected_collections os),
                      active_affected_collection := a'\<rparr>) \<and>
          (0 \<le> a \<and> a < BLI_listbase_count (affected_collections os) \<longrightarrow>
             0 \<le> a' \<and> a' \<le> max 0 (n - 1))))"
proof -
  have find_eq: "find (\<lambda>d. d = c) xs = (if c \<in> set xs then Some c else None)" for c :: nat and xs
    by (induction xs) auto
  have "x \<in> set xs \<Longrightarrow> Suc (length (remove1 x xs)) = length xs" for x :: nat and xs
    by (induction xs) auto
  then have len: "x \<in> set xs \<Longrightarrow> int (length (remove1 x xs)) = int (length xs) - 1"
    for x :: nat and xs
    by fastforce
  show ?thesis
    using BLI_findindex_bounds[of override_set "override_sets view_layer"]
      BLI_findindex_bounds[of collection "affected_collections os"]
      len[of override_set "override_sets view_layer"] len[of collection "affected_collections os"]
    by (auto simp: BKE_view_layer_override_set_remove_def
        BKE_view_layer_override_set_collection_unlink_def Let_def BLI_findindex_notin
        BLI_listbase_count_def find_eq)
qed

theorem override_set_remove_index_witness:
  "BKE_view_layer_override_set_remove ex_view_layer 30 =
     (True, ex_view_layer\<lparr>override_sets := [10, 20], active_override_set := 1\<rparr>) \<and>
   BKE_view_layer_override_set_remove ex_view_layer 10 =
     (True, ex_view_layer\<lparr>override_sets := [20, 30], active_override_set := 1\<rparr>) \<and>
   BKE_view_layer_override_set_remove ex_view_layer 40 = (False, ex_view_layer) \<and>
   BKE_view_layer_override_set_collection_unlink ex_override_set 7 =
     (True, ex_override_set\<lparr>affected_collections := [5, 6], active_affected_collection := 1\<rparr>) \<and>
   BKE_view_layer_override_set_collection_unlink ex_override_set 9 = (False, ex_override_set)"
  using override_set_remove_index[of 30 ex_view_layer 7 ex_override_set]
    override_set_remove_index[of 10 ex_view_layer 9 ex_override_set]
    override_set_remove_index[of 40 ex_view_layer 9 ex_override_set]
  by (simp add: ex_view_layer_def ex_override_set_def BLI_listbase_count_def Let_def)

text \<open>The three returns of NULL of \<^verbatim>\<open>BKE_view_layer_override_property_add\<close>, the
  list the new property goes to, and the value it holds for each property type that has
  a case in the switch.\<close>

lemma override_property_add_null:
  "owner_id_type prop \<notin> {ID_OB, ID_ME, ID_MA, ID_SCE, ID_WO} \<or>
   RNA_path_from_ID_to_property_index prop = None \<or>
   size_t_of_int (RNA_property_array_length prop) > int array_size \<Longrightarrow>
     BKE_view_layer_override_property_add array_size os prop = (None, os)"
  by (cases "owner_id_type prop")
     (auto simp: BKE_view_layer_override_property_add_def Let_def split: option.splits)

lemma override_property_add_length:
  "int array_size < RNA_property_array_length prop \<Longrightarrow> RNA_property_array_length prop < 2 ^ 31 \<Longrightarrow>
     BKE_view_layer_override_property_add array_size os prop = (None, os)"
  "- (2 ^ 31) \<le> RNA_property_array_length prop \<Longrightarrow> RNA_property_array_length prop < 0 \<Longrightarrow>
   array_size < 2 ^ 32 \<Longrightarrow>
     BKE_view_layer_override_property_add array_size os prop = (None, os)"
proof -
  let ?n = "RNA_property_array_length prop"
  show "BKE_view_layer_override_property_add array_size os prop = (None, os)"
    if "int array_size < ?n" "?n < 2 ^ 31"
  proof -
    have "size_t_of_int ?n = ?n"
      using that by (simp add: size_t_of_int_def)
    then show ?thesis using that by (intro override_property_add_null) simp
  qed
  show "BKE_view_layer_override_property_add array_size os prop = (None, os)"
    if "- (2 ^ 31) \<le> ?n" "?n < 0" "array_size < 2 ^ 32"
  proof -
    have "(?n + 2 ^ 64) mod 2 ^ 64 = ?n + 2 ^ 64"
      using that(1,2) by (intro mod_pos_pos_trivial) auto
    then have "size_t_of_int ?n = ?n + 2 ^ 64"
      unfolding size_t_of_int_def by (simp only: mod_add_self2)
    moreover have "int array_size < 2 ^ 32" using that(3) by (simp add: of_nat_less_iff[of _ "2 ^ 32", simplified])
    ultimately show ?thesis using that(1) by (intro override_property_add_null) simp
  qed
qed

lemma override_property_add_success:
  assumes "owner_id_type prop \<in> {ID_OB, ID_ME, ID_MA, ID_SCE, ID_WO}"
    and "RNA_path_from_ID_to_property_index prop = Some path"
    and "size_t_of_int (RNA_property_array_length prop) \<le> int array_size"
  shows "\<exists>dyn_prop.
     BKE_view_layer_override_property_add array_size os prop =
       (Some dyn_prop,
        if owner_id_type prop \<in> {ID_SCE, ID_WO}
        then os\<lparr>scene_properties := scene_properties os @ [dyn_prop]\<rparr>
        else os\<lparr>collection_properties := collection_properties os @ [dyn_prop]\<rparr>) \<and>
     dyn_flag dyn_prop = DYN_OVERRIDE_PROP_USE \<and>
     operation dyn_prop = IDOVERRIDESTATIC_OP_REPLACE \<and>
     root dyn_prop = owner_id prop \<and> id_type dyn_prop = owner_id_type prop \<and>
     property_type dyn_prop =
       (if owner_id_type prop \<in> {ID_SCE, ID_WO}
        then DYN_OVERRIDE_PROP_TYPE_SCENE else DYN_OVERRIDE_PROP_TYPE_COLLECTION) \<and>
     rna_path dyn_prop = path \<and> array_len dyn_prop = RNA_property_array_length prop \<and>
     (RNA_property_type prop = PROP_BOOLEAN \<longrightarrow>
        data dyn_prop = DATA_I (if RNA_property_array_check prop
                                then RNA_property_boolean_get_array prop
                                else [RNA_property_boolean_get prop])) \<and>
     (RNA_property_type prop = PROP_INT \<longrightarrow>
        data dyn_prop = DATA_I (if RNA_property_array_check prop
                                then RNA_property_int_get_array prop
                                else [RNA_property_int_get prop])) \<and>
     (RNA_property_type prop = PROP_FLOAT \<longrightarrow>
        data dyn_prop = DATA_F (if RNA_property_array_check prop
                                then RNA_property_float_get_array prop
                                else [RNA_property_float_get prop])) \<and>
     (RNA_property_type prop = PROP_STRING \<longrightarrow>
        data dyn_prop = DATA_STR (RNA_property_string_get_alloc prop)) \<and>
     (RNA_property_type prop = PROP_ENUM \<longrightarrow>
        data dyn_prop = DATA_I [RNA_property_enum_get prop]) \<and>
     (RNA_property_type prop = PROP_POINTER \<longrightarrow>
        data dyn_prop = DATA_ID (RNA_property_pointer_get prop))"
  using assms
  by (cases "owner_id_type prop")
     (auto simp: BKE_view_layer_override_property_add_def Let_def property_snapshot_def)

text \<open>
  C9. \<^verbatim>\<open>BKE_view_layer_override_property_add\<close> is to capture the current value whenever
  it returns a property. For a property of type \<^verbatim>\<open>PROP_COLLECTION\<close>, whose owner is a
  scene, whose path resolves and whose array length is 0, the call returns a property
  and appends it to \<^verbatim>\<open>scene_properties\<close>, but the payload of the property is the zeroed
  memory of the allocation: the case of the switch only holds the assertion that it
  should never happen, and nothing is captured.
\<close>

theorem override_property_add_collection_type:
  "BKE_view_layer_override_property_add 4 ex_override_set
     (ex_rna_property\<lparr>RNA_property_type := PROP_COLLECTION\<rparr>) =
     (Some \<lparr>dyn_flag = DYN_OVERRIDE_PROP_USE, operation = IDOVERRIDESTATIC_OP_REPLACE,
            root = 1, id_type = ID_SCE, property_type = DYN_OVERRIDE_PROP_TYPE_SCENE,
            rna_path = ''frame_start'', array_len = 0, data = DATA_ZERO\<rparr>,
      ex_override_set\<lparr>scene_properties :=
        [\<lparr>dyn_flag = DYN_OVERRIDE_PROP_USE, operation = IDOVERRIDESTATIC_OP_REPLACE,
          root = 1, id_type = ID_SCE, property_type = DYN_OVERRIDE_PROP_TYPE_SCENE,
          rna_path = ''frame_start'', array_len = 0, data = DATA_ZERO\<rparr>]\<rparr>)"
  by (simp add: BKE_view_layer_override_property_add_def ex_rna_property_def ex_override_set_def
      property_snapshot_def size_t_of_int_def Let_def)

end
